theory Spec2Isabelle
  imports Main "HOL-Library.Char_ord" "HOL-Library.List_Lexorder"
begin

section \<open>Python values used by mail2.py\<close>

text \<open>
  A Python \<open>str\<close> is modelled as a \<open>string\<close> holding the UTF-8 encoding of the text, so
  ASCII text is itself and the lexicographic order of \<open>HOL-Library.List_Lexorder\<close> over
  \<open>HOL-Library.Char_ord\<close> is Python's code point order of \<open>str\<close>. A \<open>bytes\<close> object is a
  \<open>string\<close> of its bytes.

  Two methods of \<open>str\<close> rest on Unicode's tables of cased letters and of white space,
  which this theory does not hold. Where their result on text outside ASCII can matter
  (the sort key and the tokens of \<open>list_mailboxes\<close>, the console input of
  \<open>compose_and_send\<close>), \<open>str.lower\<close>, \<open>str.split\<close> and \<open>str.strip\<close> are fields of
  \<open>str_methods\<close>, taken as the library gives them. \<open>lower\<close>, \<open>split_ws\<close> and \<open>strip\<close>
  below are these methods on ASCII text. \<open>lower\<close> is also used for the prefix tests of
  reply and forward subjects, where it decides as \<open>str.lower\<close> does on every \<open>str\<close>: no
  code point outside ASCII lower-cases to text that begins with \<open>r\<close>, \<open>e\<close>, \<open>f\<close>, \<open>w\<close>
  or a colon.

  An exception is a value of \<open>exn\<close>: the classes below are all subclasses of Python's
  \<open>Exception\<close>, which is what every \<open>except Exception\<close> of the source catches.
  \<open>LibraryError\<close> stands for whatever a call into smtplib, imaplib, ssl, socket or the
  email package raises, given by a label. Interrupts (\<open>KeyboardInterrupt\<close>) are not
  modelled, and writing to the console is taken to succeed.
\<close>

datatype exn =
    IndexError
  | KeyError string
  | EOFError
  | AttributeError
  | AssertionError
  | RuntimeError string
  | PlainException string
  | LibraryError string

subsection \<open>str.lower, str.startswith\<close>

definition lower_char :: "char \<Rightarrow> char" where
  "lower_char c =
     (case map_of (zip ''ABCDEFGHIJKLMNOPQRSTUVWXYZ'' ''abcdefghijklmnopqrstuvwxyz'') c of
        Some d \<Rightarrow> d
      | None \<Rightarrow> c)"

definition lower :: "string \<Rightarrow> string" where
  "lower s = map lower_char s"

definition startswith :: "string \<Rightarrow> string \<Rightarrow> bool" where
  "startswith s p = (take (length p) s = p)"

text \<open>\<open>x or ""\<close> for a header lookup \<open>x\<close> that is \<open>None\<close> or a \<open>str\<close>.\<close>

definition or_empty :: "string option \<Rightarrow> string" where
  "or_empty v = (case v of None \<Rightarrow> [] | Some s \<Rightarrow> s)"

subsection \<open>str.strip, str.split, str.join\<close>

text \<open>The white space of \<open>str.strip()\<close> and \<open>str.split()\<close> within ASCII.\<close>

definition is_space :: "char \<Rightarrow> bool" where
  "is_space c \<longleftrightarrow>
     c \<in> set [CHR 0x09, CHR 0x0A, CHR 0x0B, CHR 0x0C, CHR 0x0D,
              CHR 0x1C, CHR 0x1D, CHR 0x1E, CHR 0x1F, CHR 0x20]"

definition strip_chars :: "(char \<Rightarrow> bool) \<Rightarrow> string \<Rightarrow> string" where
  "strip_chars p s = rev (dropWhile p (rev (dropWhile p s)))"

definition strip :: "string \<Rightarrow> string" where
  "strip s = strip_chars is_space s"

text \<open>
  \<open>s.split()\<close>: the maximal runs of characters that are not white space, in order;
  \<open>w\<close> is the run being read.
\<close>

fun split_ws_from :: "string \<Rightarrow> string \<Rightarrow> string list" where
  "split_ws_from w [] = (if w = [] then [] else [w])"
| "split_ws_from w (c # cs) =
     (if is_space c then (if w = [] then split_ws_from [] cs else w # split_ws_from [] cs)
      else split_ws_from (w @ [c]) cs)"

definition split_ws :: "string \<Rightarrow> string list" where
  "split_ws s = split_ws_from [] s"

text \<open>\<open>s.split(sep)\<close> for a separator of one character: never an empty list.\<close>

fun split_on :: "char \<Rightarrow> string \<Rightarrow> string list" where
  "split_on sep [] = [[]]"
| "split_on sep (c # cs) =
     (if c = sep then [] # split_on sep cs
      else (case split_on sep cs of w # ws \<Rightarrow> (c # w) # ws | [] \<Rightarrow> [[c]]))"

fun join :: "string \<Rightarrow> string list \<Rightarrow> string" where
  "join sep [] = []"
| "join sep [x] = x"
| "join sep (x # y # ys) = x @ sep @ join sep (y # ys)"

subsection \<open>re.findall with the pattern of list\_mailboxes\<close>

abbreviation dquote :: char where
  "dquote \<equiv> CHR 0x22"

text \<open>
  \<open>re.findall(r'"([^"]+)"', s)\<close>: at each position, from the left, a match is a double
  quote, one or more characters other than a double quote, and a double quote; the
  group between the quotes is collected and the search goes on after the match. Where
  there is no match the search moves one character on.
\<close>

function findall_quoted :: "string \<Rightarrow> string list" where
  "findall_quoted [] = []"
| "findall_quoted (c # cs) =
     (let tok = takeWhile (\<lambda>x. x \<noteq> dquote) cs; rest = dropWhile (\<lambda>x. x \<noteq> dquote) cs
      in if c = dquote \<and> tok \<noteq> [] \<and> rest \<noteq> [] then tok # findall_quoted (tl rest)
         else findall_quoted cs)"
  by pat_completeness auto
termination
proof (relation "measure length")
  fix c :: char and cs tok rest :: string
  assume "rest = dropWhile (\<lambda>x. x \<noteq> dquote) cs"
  then have "length (tl rest) \<le> length cs"
    using length_dropWhile_le [of "\<lambda>x. x \<noteq> dquote" cs] by simp
  then show "(tl rest, c # cs) \<in> measure length" by simp
qed simp_all

subsection \<open>The methods of str taken from the library\<close>

text \<open>
  \<open>str_lower s\<close> is \<open>s.lower()\<close>, \<open>str_split s\<close> is \<open>s.split()\<close> and \<open>str_strip s\<close> is
  \<open>s.strip()\<close>, for every \<open>str\<close>. \<open>ascii_str\<close> is the instance for ASCII text, on which
  the three methods are \<open>lower\<close>, \<open>split_ws\<close> and \<open>strip\<close>.
\<close>

record str_methods =
  str_lower :: "string \<Rightarrow> string"
  str_split :: "string \<Rightarrow> string list"
  str_strip :: "string \<Rightarrow> string"

definition ascii_str :: str_methods where
  "ascii_str = \<lparr>str_lower = lower, str_split = split_ws, str_strip = strip\<rparr>"

section \<open>MailApp: subjects of replies and forwards\<close>

text \<open>
  Lines 362-364 of \<open>MailApp.reply_to_message\<close>; the argument is
  \<open>original.get("Subject")\<close>.
\<close>

definition reply_to_message_subject :: "string option \<Rightarrow> string" where
  "reply_to_message_subject h =
     (let subject = or_empty h
      in if \<not> startswith (lower subject) ''re:'' then ''Re: '' @ subject else subject)"

text \<open>Lines 378-380 of \<open>MailApp.forward_message\<close>.\<close>

definition forward_message_subject :: "string option \<Rightarrow> string" where
  "forward_message_subject h =
     (let subject = or_empty h
      in if \<not> startswith (lower subject) ''fw:'' then ''Fwd: '' @ subject else subject)"

section \<open>Decoding header text and fetching header summaries\<close>

text \<open>
  The value handed to \<open>decode_maybe\<close>: \<open>None\<close>, a \<open>bytes\<close> object or a \<open>str\<close> (a header
  looked up in a parsed message is \<open>None\<close> or a \<open>str\<close>).
\<close>

datatype header_value = HNone | HBytes string | HStr string

text \<open>
  The calls into the standard library, whose code is not part of mail2.py, are fields
  of \<open>email_lib\<close>: \<open>header_str v\<close> is \<open>str(make_header(decode_header(v)))\<close>, which may
  raise; \<open>utf8_replace b\<close> is \<open>b.decode("utf-8", errors="replace")\<close>, which returns for
  every \<open>bytes\<close> value; \<open>msg_get raw name\<close> is
  \<open>message_from_bytes(raw, policy=policy.default).get(name)\<close>, which under
  \<open>policy.default\<close> parses the header and may raise on a malformed one.
\<close>

record email_lib =
  header_str :: "header_value \<Rightarrow> exn + string"
  utf8_replace :: "string \<Rightarrow> string"
  msg_get :: "string \<Rightarrow> string \<Rightarrow> exn + string option"

text \<open>
  Line 55, the body of the first handler: \<open>value.decode(FALLBACK_CHARSET,
  errors="replace")\<close> for \<open>bytes\<close>, \<open>str(value)\<close> otherwise. Neither raises on these
  values, so the second handler (lines 56-57) is never entered.
\<close>

definition decode_fallback :: "email_lib \<Rightarrow> header_value \<Rightarrow> string" where
  "decode_fallback lib v =
     (case v of HBytes b \<Rightarrow> utf8_replace lib b | HStr s \<Rightarrow> s | HNone \<Rightarrow> ''None'')"

definition decode_maybe :: "email_lib \<Rightarrow> header_value \<Rightarrow> exn + string" where
  "decode_maybe lib v =
     (if v = HNone then Inr []
      else (case header_str lib v of
              Inr s \<Rightarrow> Inr s
            | Inl _ \<Rightarrow> Inr (decode_fallback lib v)))"

text \<open>
  An item of the data list that imaplib returns for a FETCH: a tuple (envelope, literal),
  a \<open>bytes\<close> line, or \<open>None\<close>.
\<close>

datatype fetch_item = FTuple string string | FBytes string | FNone

definition is_tuple :: "fetch_item \<Rightarrow> bool" where
  "is_tuple x = (case x of FTuple _ _ \<Rightarrow> True | _ \<Rightarrow> False)"

text \<open>\<open>decode_maybe(hdr.get(name))\<close>: the lookup, then the decoding of what it returns.\<close>

definition decoded_header :: "email_lib \<Rightarrow> string \<Rightarrow> string \<Rightarrow> exn + string" where
  "decoded_header lib raw name =
     (case msg_get lib raw name of
        Inl e \<Rightarrow> Inl e
      | Inr None \<Rightarrow> decode_maybe lib HNone
      | Inr (Some s) \<Rightarrow> decode_maybe lib (HStr s))"

text \<open>Lines 157-162: the three headers of the literal, in the order of the tuple.\<close>

definition decoded_headers :: "email_lib \<Rightarrow> string \<Rightarrow> exn + (string \<times> string \<times> string)" where
  "decoded_headers lib raw =
     (case decoded_header lib raw ''From'' of
        Inl e \<Rightarrow> Inl e
      | Inr f \<Rightarrow>
          (case decoded_header lib raw ''Subject'' of
             Inl e \<Rightarrow> Inl e
           | Inr s \<Rightarrow>
               (case decoded_header lib raw ''Date'' of
                  Inl e \<Rightarrow> Inl e
                | Inr d \<Rightarrow> Inr (f, s, d))))"

text \<open>
  \<open>ImapClient.fetch_headers\<close>. \<open>reply\<close> is what lines 153-154 yield: an exception (of the
  assertion or of \<open>self.conn.uid\<close>), or the pair \<open>(typ, data)\<close>.
\<close>

definition fetch_headers ::
  "email_lib \<Rightarrow> exn + (string \<times> fetch_item list) \<Rightarrow> exn + (string \<times> string \<times> string)" where
  "fetch_headers lib reply =
     (case reply of
        Inl e \<Rightarrow> Inl e
      | Inr (typ, data) \<Rightarrow>
          if typ \<noteq> ''OK'' then Inr ([], [], [])
          else (case data of
                  [] \<Rightarrow> Inr ([], [], [])
                | FTuple envelope raw # _ \<Rightarrow> decoded_headers lib raw
                | _ # _ \<Rightarrow> Inr ([], [], [])))"

text \<open>
  An instance of the library for ASCII input without encoded words: such a \<open>str\<close> is its
  own header text, \<open>decode_header\<close> raises \<open>TypeError\<close> on \<open>bytes\<close>, ASCII bytes decode to
  themselves, and the parsed message has none of the headers asked for.
\<close>

definition plain_lib :: email_lib where
  "plain_lib =
     \<lparr>header_str = (\<lambda>v. case v of HStr s \<Rightarrow> Inr s | _ \<Rightarrow> Inl (LibraryError ''TypeError'')),
      utf8_replace = (\<lambda>b. b), msg_get = (\<lambda>raw name. Inr None)\<rparr>"

section \<open>extract\_text\_plain\<close>

text \<open>
  A message or a part of one, by what the email package answers about it:
  \<open>content_type\<close> is \<open>get_content_type()\<close>, \<open>content_disposition\<close> is
  \<open>get_content_disposition()\<close>, \<open>get_content\<close> is the outcome of \<open>get_content()\<close>,
  \<open>payload_decoded\<close> is the outcome of
  \<open>get_payload(decode=True).decode(get_content_charset() or FALLBACK_CHARSET,
  errors="replace")\<close>, \<open>is_multipart\<close> is \<open>is_multipart()\<close> and \<open>subparts\<close> is the
  payload of a multipart message.
\<close>

datatype message =
  Message (content_type: string) (content_disposition: "string option")
    (get_content: "exn + string") (payload_decoded: "exn + string")
    (is_multipart: bool) (subparts: "message list")

text \<open>\<open>msg.walk()\<close>: the message itself, then the walk of each subpart in order.\<close>

fun walk :: "message \<Rightarrow> message list" where
  "walk (Message ct cd gc pd mp ps) =
     Message ct cd gc pd mp ps # (if mp then concat (map walk ps) else [])"

text \<open>\<open>get_content_maintype()\<close>: \<open>get_content_type().split("/")[0]\<close>.\<close>

definition get_content_maintype :: "message \<Rightarrow> string" where
  "get_content_maintype m = takeWhile (\<lambda>c. c \<noteq> CHR ''/'') (content_type m)"

text \<open>The three texts of lines 70, 79 and 80, in UTF-8.\<close>

definition NO_READABLE_PART :: string where
  "NO_READABLE_PART = ''('' @ [CHR 0xC5, CHR 0xBD, CHR 0xC3, CHR 0xA1] @ ''dn'' @ [CHR 0xC3, CHR 0xA1] @ '' '' @ [CHR 0xC4, CHR 0x8D] @ ''iteln'' @ [CHR 0xC3, CHR 0xA1] @ '' textov'' @ [CHR 0xC3, CHR 0xA1] @ '' '' @ [CHR 0xC4, CHR 0x8D, CHR 0xC3, CHR 0xA1] @ ''st.)''"

definition CANNOT_DECODE_BODY :: string where
  "CANNOT_DECODE_BODY = ''(Nelze dek'' @ [CHR 0xC3, CHR 0xB3] @ ''dovat t'' @ [CHR 0xC4, CHR 0x9B] @ ''lo zpr'' @ [CHR 0xC3, CHR 0xA1] @ ''vy.)''"

definition NOT_TEXTUAL :: string where
  "NOT_TEXTUAL = ''(Zpr'' @ [CHR 0xC3, CHR 0xA1] @ ''va nen'' @ [CHR 0xC3, CHR 0xAD] @ '' textov'' @ [CHR 0xC3, CHR 0xA9] @ ''ho typu.)''"

text \<open>The test of line 62.\<close>

definition plain_inline :: "message \<Rightarrow> bool" where
  "plain_inline part \<longleftrightarrow>
     content_type part = ''text/plain'' \<and> content_disposition part \<noteq> Some ''attachment''"

text \<open>
  The two attempts of lines 63-67 and of lines 73-77: \<open>get_content()\<close>, and when that
  raises the decoded payload; \<open>None\<close> when both raise.
\<close>

definition decoded_text :: "message \<Rightarrow> string option" where
  "decoded_text part =
     (case get_content part of
        Inr s \<Rightarrow> Some s
      | Inl _ \<Rightarrow> (case payload_decoded part of Inr s \<Rightarrow> Some s | Inl _ \<Rightarrow> None))"

text \<open>The loop of lines 61-70 over the parts still to be visited.\<close>

fun scan_parts :: "message list \<Rightarrow> string" where
  "scan_parts [] = NO_READABLE_PART"
| "scan_parts (part # parts) =
     (if plain_inline part
      then (case decoded_text part of Some s \<Rightarrow> s | None \<Rightarrow> scan_parts parts)
      else scan_parts parts)"

definition extract_text_plain :: "message \<Rightarrow> string" where
  "extract_text_plain msg =
     (if is_multipart msg then scan_parts (walk msg)
      else if get_content_maintype msg = ''text''
           then (case decoded_text msg of Some s \<Rightarrow> s | None \<Rightarrow> CANNOT_DECODE_BODY)
           else NOT_TEXTUAL)"

section \<open>ImapClient.list\_mailboxes\<close>

text \<open>
  An item of the data list that imaplib returns for LIST: a \<open>bytes\<close> line, or an object
  with no \<open>decode\<close> method (\<open>None\<close>, a tuple), given by its \<open>str(line)\<close>.
\<close>

datatype list_item = LBytes string | LOther string

text \<open>Lines 124-127.\<close>

definition line_text :: "email_lib \<Rightarrow> list_item \<Rightarrow> string" where
  "line_text lib line = (case line of LBytes b \<Rightarrow> utf8_replace lib b | LOther s \<Rightarrow> s)"

text \<open>
  Lines 128-132. \<open>decoded.split()[-1]\<close> raises \<open>IndexError\<close> when the line has no token.
  The double quote is an ASCII character, so \<open>findall_quoted\<close> and \<open>strip('"')\<close> are as
  Python's on every \<open>str\<close>.
\<close>

definition entry_name :: "str_methods \<Rightarrow> string \<Rightarrow> exn + string" where
  "entry_name str decoded =
     (let m = findall_quoted decoded
      in if m \<noteq> [] then Inr (last m)
         else (case str_split str decoded of
                 [] \<Rightarrow> Inl IndexError
               | w # ws \<Rightarrow> Inr (strip_chars (\<lambda>c. c = dquote) (last (w # ws)))))"

text \<open>Line 133.\<close>

definition keep_name :: "string \<Rightarrow> bool" where
  "keep_name name \<longleftrightarrow> name \<noteq> [] \<and> name \<noteq> ''.'' \<and> name \<noteq> [dquote, dquote]"

text \<open>The loop of lines 123-134; \<open>boxes\<close> is the list built so far.\<close>

fun collect_boxes ::
  "email_lib \<Rightarrow> str_methods \<Rightarrow> list_item list \<Rightarrow> string list \<Rightarrow> exn + string list" where
  "collect_boxes lib str [] boxes = Inr boxes"
| "collect_boxes lib str (line # rest) boxes =
     (case entry_name str (line_text lib line) of
        Inl e \<Rightarrow> Inl e
      | Inr name \<Rightarrow>
          collect_boxes lib str rest (if keep_name name then boxes @ [name] else boxes))"

text \<open>
  \<open>ImapClient.list_mailboxes\<close>. \<open>reply\<close> is what lines 117-119 yield: an exception, or
  the pair \<open>(typ, data)\<close>. \<open>set_iter boxes\<close> is the order in which \<open>set(boxes)\<close> is
  iterated, which Python does not fix: the properties below are stated for every
  \<open>set_iter\<close> that lists each element of \<open>boxes\<close> once. \<open>sorted(..., key=str.lower)\<close>
  compares the keys \<open>str_lower str name\<close> in the order of \<open>str\<close> and is stable, as
  \<open>sort_key\<close> is.
\<close>

definition list_mailboxes ::
  "email_lib \<Rightarrow> str_methods \<Rightarrow> (string list \<Rightarrow> string list)
     \<Rightarrow> exn + (string \<times> list_item list) \<Rightarrow> exn + string list" where
  "list_mailboxes lib str set_iter reply =
     (case reply of
        Inl e \<Rightarrow> Inl e
      | Inr (typ, data) \<Rightarrow>
          if typ \<noteq> ''OK'' \<or> data = [] then Inr []
          else (case collect_boxes lib str data [] of
                  Inl e \<Rightarrow> Inl e
                | Inr boxes \<Rightarrow> Inr (sort_key (str_lower str) (set_iter boxes))))"

section \<open>SmtpClient.connect\<close>











section \<open>SmtpClient.send\_text\<close>

text \<open>
  The message of lines 218-223: sender (display name, address), the joined recipients,
  subject and body.
\<close>

record outgoing =
  msg_from :: "string \<times> string"
  msg_to :: string
  msg_subject :: string
  msg_body :: string

text \<open>
  What \<open>send_text\<close> meets: the user of the session, the exception that building the
  message raises (a header value with a line break), whether \<open>self.conn\<close> is set, the
  exception that \<open>send_message\<close> raises, \<open>FOLDERS["sent"]\<close> (\<open>None\<close>: the key is absent),
  and the exception that \<open>msg.as_bytes()\<close> raises.
\<close>

record send_env =
  smtp_user :: string
  build_error :: "exn option"
  smtp_connected :: bool
  send_message :: "exn option"
  sent_folder :: "string option"
  as_bytes_error :: "exn option"

text \<open>
  The archiver: whether its \<open>conn\<close> is set, what \<open>conn.select\<close> raises or the status it
  returns, and what \<open>conn.append\<close> raises.
\<close>

record imap_session =
  imap_connected :: bool
  select_reply :: "exn + string"
  append_error :: "exn option"

text \<open>What \<open>send_text\<close> does, in order: calls and printed lines (\<open>Say...\<close>).\<close>

datatype send_event =
    SendMessage outgoing | SaySent
  | SayArchiveAttempt string | Select string | Append string outgoing | SayArchived string
  | SayArchiveFailed exn

definition CANNOT_SELECT :: string where
  "CANNOT_SELECT = ''Nelze vybrat schr'' @ [CHR 0xC3, CHR 0xA1] @ ''nku: ''"

text \<open>\<open>ImapClient.select_mailbox\<close>.\<close>

definition select_mailbox :: "imap_session \<Rightarrow> string \<Rightarrow> send_event list \<times> exn option" where
  "select_mailbox imap mailbox =
     (if \<not> imap_connected imap then ([], Some AssertionError)
      else (case select_reply imap of
              Inl e \<Rightarrow> ([Select mailbox], Some e)
            | Inr typ \<Rightarrow>
                if typ \<noteq> ''OK'' then ([Select mailbox], Some (RuntimeError (CANNOT_SELECT @ mailbox)))
                else ([Select mailbox], None)))"

text \<open>The \<open>try\<close> block of lines 232-236.\<close>

definition archive_copy ::
  "send_env \<Rightarrow> imap_session \<Rightarrow> outgoing \<Rightarrow> send_event list \<times> exn option" where
  "archive_copy env imap msg =
     (case sent_folder env of
        None \<Rightarrow> ([], Some (KeyError ''sent''))
      | Some sent_box \<Rightarrow>
          (case select_mailbox imap sent_box of
             (evs, Some e) \<Rightarrow> (SayArchiveAttempt sent_box # evs, Some e)
           | (evs, None) \<Rightarrow>
               (case as_bytes_error env of
                  Some e \<Rightarrow> (SayArchiveAttempt sent_box # evs, Some e)
                | None \<Rightarrow>
                    (case append_error imap of
                       Some e \<Rightarrow>
                         (SayArchiveAttempt sent_box # evs @ [Append sent_box msg], Some e)
                     | None \<Rightarrow>
                         (SayArchiveAttempt sent_box # evs
                            @ [Append sent_box msg, SayArchived sent_box], None)))))"

text \<open>Lines 218-223.\<close>

definition build_outgoing ::
  "send_env \<Rightarrow> string list \<Rightarrow> string \<Rightarrow> string \<Rightarrow> string option \<Rightarrow> outgoing" where
  "build_outgoing env to_addrs subject body from_name =
     \<lparr>msg_from =
        (case from_name of None \<Rightarrow> smtp_user env
         | Some n \<Rightarrow> if n = [] then smtp_user env else n, smtp_user env),
      msg_to = join '', '' to_addrs, msg_subject = subject, msg_body = body\<rparr>"

text \<open>\<open>SmtpClient.send_text\<close>: the events and the result.\<close>

definition send_text ::
  "send_env \<Rightarrow> string list \<Rightarrow> string \<Rightarrow> string \<Rightarrow> string option \<Rightarrow> imap_session option
     \<Rightarrow> send_event list \<times> (exn + unit)" where
  "send_text env to_addrs subject body from_name imap_client =
     (case build_error env of
        Some e \<Rightarrow> ([], Inl e)
      | None \<Rightarrow>
          (let msg = build_outgoing env to_addrs subject body from_name
           in if \<not> smtp_connected env then ([], Inl AttributeError)
              else (case send_message env of
                      Some e \<Rightarrow> ([SendMessage msg], Inl e)
                    | None \<Rightarrow>
                        (case imap_client of
                           None \<Rightarrow> ([SendMessage msg, SaySent], Inr ())
                         | Some imap \<Rightarrow>
                             (case archive_copy env imap msg of
                                (evs, None) \<Rightarrow> (SendMessage msg # SaySent # evs, Inr ())
                              | (evs, Some e) \<Rightarrow>
                                  (SendMessage msg # SaySent # evs @ [SayArchiveFailed e],
                                   Inr ()))))))"

section \<open>MailApp.compose\_and\_send\<close>

text \<open>
  The console input is the list of the lines still to be read; \<open>input()\<close> raises
  \<open>EOFError\<close> when there is none. \<open>input_nonempty\<close> returns the stripped line and the
  lines left.
\<close>

fun input_nonempty :: "str_methods \<Rightarrow> string list \<Rightarrow> exn + (string \<times> string list)" where
  "input_nonempty str [] = Inl EOFError"
| "input_nonempty str (l # ls) =
     (let s = str_strip str l in if s \<noteq> [] then Inr (s, ls) else input_nonempty str ls)"

text \<open>The loop of lines 351-355.\<close>

fun read_body ::
  "str_methods \<Rightarrow> string list \<Rightarrow> string list \<Rightarrow> exn + (string list \<times> string list)" where
  "read_body str lines [] = Inl EOFError"
| "read_body str lines (l # ls) =
     (if str_strip str l = ''.'' then Inr (lines, ls) else read_body str (lines @ [l]) ls)"

text \<open>Line 357: \<open>[a.strip() for a in to_line.split(",") if a.strip()]\<close>.\<close>

definition split_addrs :: "str_methods \<Rightarrow> string \<Rightarrow> string list" where
  "split_addrs str to_line =
     map (str_strip str)
       (filter (\<lambda>a. str_strip str a \<noteq> []) (split_on (CHR '','') to_line))"

text \<open>
  Lines 347-357 of \<open>MailApp.compose_and_send\<close>: the recipients, the subject and the body
  that line 358 hands to \<open>send_text\<close>.
\<close>

definition compose_and_send_args ::
  "str_methods \<Rightarrow> string list \<Rightarrow> exn + (string list \<times> string \<times> string)" where
  "compose_and_send_args str stdin =
     (case input_nonempty str stdin of
        Inl e \<Rightarrow> Inl e
      | Inr (to_line, stdin1) \<Rightarrow>
          (case stdin1 of
             [] \<Rightarrow> Inl EOFError
           | l # stdin2 \<Rightarrow>
               (let subject = str_strip str l
                in case read_body str [] stdin2 of
                     Inl e \<Rightarrow> Inl e
                   | Inr (lines, stdin3) \<Rightarrow>
                       Inr (split_addrs str to_line, subject, join [CHR 0x0A] lines))))"

section \<open>Properties\<close>

subsection \<open>Lower-casing\<close>

lemma lower_Nil: "lower [] = []"
  by (simp add: lower_def)

lemma lower_Cons: "lower (c # s) = lower_char c # lower s"
  by (simp add: lower_def)

lemma lower_append: "lower (a @ b) = lower a @ lower b"
  by (simp add: lower_def)

lemma lower_char_colon: "lower_char c = CHR '':'' \<longleftrightarrow> c = CHR '':''"
  by (simp add: lower_char_def)

lemma lower_char_r: "lower_char c = CHR ''r'' \<longleftrightarrow> c = CHR ''r'' \<or> c = CHR ''R''"
  by (auto simp add: lower_char_def)

lemma lower_char_e: "lower_char c = CHR ''e'' \<longleftrightarrow> c = CHR ''e'' \<or> c = CHR ''E''"
  by (auto simp add: lower_char_def)

lemma lower_char_f: "lower_char c = CHR ''f'' \<longleftrightarrow> c = CHR ''f'' \<or> c = CHR ''F''"
  by (auto simp add: lower_char_def)

lemma lower_char_w: "lower_char c = CHR ''w'' \<longleftrightarrow> c = CHR ''w'' \<or> c = CHR ''W''"
  by (auto simp add: lower_char_def)

lemma startswith3:
  "startswith s [a, b, c] \<longleftrightarrow> (\<exists>rest. s = a # b # c # rest)"
proof (cases s)
  case Nil
  then show ?thesis by (simp add: startswith_def)
next
  case (Cons x xs)
  note s1 = this
  show ?thesis
  proof (cases xs)
    case Nil
    with s1 show ?thesis by (simp add: startswith_def)
  next
    case (Cons y ys)
    note s2 = this
    show ?thesis
    proof (cases ys)
      case Nil
      with s1 s2 show ?thesis by (simp add: startswith_def)
    next
      case (Cons z zs)
      with s1 s2 show ?thesis by (auto simp add: startswith_def)
    qed
  qed
qed

lemma lower_eq_Cons:
  "lower s = a # t \<longleftrightarrow> (\<exists>x xs. s = x # xs \<and> lower_char x = a \<and> lower xs = t)"
  by (cases s) (auto simp add: lower_def)

lemma startswith_lower3:
  "startswith (lower s) [a, b, c] \<longleftrightarrow>
     (\<exists>x y z rest. s = x # y # z # rest \<and> lower_char x = a \<and> lower_char y = b \<and> lower_char z = c)"
  by (auto simp add: startswith3 lower_eq_Cons)

lemma startswith_re:
  "startswith (lower s) ''re:'' \<longleftrightarrow>
     (\<exists>x y rest. s = x # y # CHR '':'' # rest \<and> (x = CHR ''r'' \<or> x = CHR ''R'')
        \<and> (y = CHR ''e'' \<or> y = CHR ''E''))"
  by (auto simp add: startswith_lower3 lower_char_r lower_char_e lower_char_colon)

lemma startswith_fw:
  "startswith (lower s) ''fw:'' \<longleftrightarrow>
     (\<exists>x y rest. s = x # y # CHR '':'' # rest \<and> (x = CHR ''f'' \<or> x = CHR ''F'')
        \<and> (y = CHR ''w'' \<or> y = CHR ''W''))"
  by (auto simp add: startswith_lower3 lower_char_f lower_char_w lower_char_colon)

subsection \<open>Reply subject\<close>

text \<open>
  C7, as the code has it. The reply subject is the original subject when that begins with
  "re:" in any letter case (an \<open>R\<close> or \<open>r\<close>, then an \<open>E\<close> or \<open>e\<close>, then a colon), and
  "Re: " followed by the original subject otherwise (a missing subject counts as the
  empty one). The result always begins with "re:" case-insensitively, and applying the
  rule to its own result changes nothing: the rule never adds a prefix to a subject that
  begins with one. It says nothing of how many prefixes the result carries.
\<close>

theorem reply_subject_prefix_rule:
  "reply_to_message_subject h =
     (if startswith (lower (or_empty h)) ''re:'' then or_empty h else ''Re: '' @ or_empty h)
   \<and> reply_to_message_subject (Some (x # y # CHR '':'' # rest)) =
     (if (x = CHR ''r'' \<or> x = CHR ''R'') \<and> (y = CHR ''e'' \<or> y = CHR ''E'')
      then x # y # CHR '':'' # rest else ''Re: '' @ x # y # CHR '':'' # rest)
   \<and> startswith (lower (reply_to_message_subject h)) ''re:''
   \<and> reply_to_message_subject (Some (reply_to_message_subject h)) = reply_to_message_subject h"
proof -
  have pre: "startswith (lower (''Re: '' @ s)) ''re:''" for s
    by (simp add: startswith_re)
  have one: "reply_to_message_subject h =
     (if startswith (lower (or_empty h)) ''re:'' then or_empty h else ''Re: '' @ or_empty h)"
    by (simp add: reply_to_message_subject_def Let_def)
  have two: "reply_to_message_subject (Some (x # y # CHR '':'' # rest)) =
     (if (x = CHR ''r'' \<or> x = CHR ''R'') \<and> (y = CHR ''e'' \<or> y = CHR ''E'')
      then x # y # CHR '':'' # rest else ''Re: '' @ x # y # CHR '':'' # rest)"
    by (simp add: reply_to_message_subject_def Let_def or_empty_def startswith_re)
  have three: "startswith (lower (reply_to_message_subject h)) ''re:''"
    using pre by (simp add: one)
  have four: "reply_to_message_subject (Some (reply_to_message_subject h)) =
      reply_to_message_subject h"
    using three by (simp add: reply_to_message_subject_def Let_def or_empty_def)
  from one two three four show ?thesis by blast
qed

theorem reply_subject_prefix_rule_witness:
  "reply_to_message_subject (Some ''RE: lunch'') = ''RE: lunch''
   \<and> reply_to_message_subject (Some ''lunch'') = ''Re: lunch''
   \<and> reply_to_message_subject (Some ''Re: lunch'') = ''Re: lunch''
   \<and> reply_to_message_subject None = ''Re: ''"
  using reply_subject_prefix_rule [of "Some ''RE: lunch''" "CHR ''R''" "CHR ''E''" "'' lunch''"]
    reply_subject_prefix_rule [of "Some ''lunch''" "CHR ''l''" "CHR ''u''" "''ch''"]
    reply_subject_prefix_rule [of "Some ''Re: lunch''" "CHR ''R''" "CHR ''e''" "'' lunch''"]
    reply_subject_prefix_rule [of None "CHR ''R''" "CHR ''e''" "[]"]
  by (simp add: or_empty_def startswith_re)

text \<open>
  The rule looks at the start of the subject only: a subject that repeats the prefix is
  left with both.
\<close>

theorem reply_subject_keeps_repeated_prefix:
  "reply_to_message_subject (Some (''Re: '' @ ''Re: '' @ ''lunch'')) = ''Re: '' @ ''Re: '' @ ''lunch''"
  by (simp add: reply_to_message_subject_def or_empty_def startswith_re)

subsection \<open>Forward subject\<close>

text \<open>
  C4. The forwarded subject is the original subject when that begins with "fw:" in any
  letter case (an \<open>F\<close> or \<open>f\<close>, then a \<open>W\<close> or \<open>w\<close>, then a colon), and "Fwd: " followed
  by the original subject otherwise (a missing subject counts as the empty one).
\<close>

theorem forward_subject_prefix:
  "(startswith (lower (or_empty h)) ''fw:'' \<longrightarrow> forward_message_subject h = or_empty h)
   \<and> (\<not> startswith (lower (or_empty h)) ''fw:'' \<longrightarrow>
        forward_message_subject h = ''Fwd: '' @ or_empty h)
   \<and> ((x = CHR ''f'' \<or> x = CHR ''F'') \<and> (y = CHR ''w'' \<or> y = CHR ''W'') \<longrightarrow>
        forward_message_subject (Some (x # y # CHR '':'' # rest)) = x # y # CHR '':'' # rest)"
  by (simp add: forward_message_subject_def Let_def or_empty_def startswith_fw)

theorem forward_subject_prefix_witness:
  "forward_message_subject (Some ''FW: minutes'') = ''FW: minutes''
   \<and> forward_message_subject (Some ''minutes'') = ''Fwd: minutes''"
  using forward_subject_prefix [of "Some ''FW: minutes''" "CHR ''F''" "CHR ''W''" "'' minutes''"]
    forward_subject_prefix [of "Some ''minutes''" "CHR ''F''" "CHR ''W''" "[]"]
  by (simp add: or_empty_def startswith_fw)

text \<open>
  The test is for "fw:", the added prefix is "Fwd: ": a subject that already carries
  "Fwd: " is prefixed again.
\<close>

lemma forward_subject_fwd_again:
  "forward_message_subject (Some (''Fwd: '' @ s)) = ''Fwd: Fwd: '' @ s"
  by (simp add: forward_message_subject_def Let_def or_empty_def startswith_fw)

subsection \<open>Header text\<close>

text \<open>
  C6. For every header value (\<open>None\<close>, \<open>bytes\<close> or \<open>str\<close>) and whatever the header
  decoding of the library does, \<open>decode_maybe\<close> returns a string and raises nothing:
  the empty string for \<open>None\<close>, the library's result when it succeeds, and when it
  raises the bytes decoded as UTF-8 with replacement, or the \<open>str\<close> itself.
\<close>

theorem decode_maybe_returns:
  "(\<exists>s. decode_maybe lib v = Inr s)
   \<and> decode_maybe lib HNone = Inr []
   \<and> (v \<noteq> HNone \<longrightarrow> header_str lib v = Inr s' \<longrightarrow> decode_maybe lib v = Inr s')
   \<and> (header_str lib (HBytes b) = Inl e \<longrightarrow>
        decode_maybe lib (HBytes b) = Inr (utf8_replace lib b))
   \<and> (header_str lib (HStr t) = Inl e \<longrightarrow> decode_maybe lib (HStr t) = Inr t)"
  by (cases "header_str lib v") (simp_all add: decode_maybe_def decode_fallback_def)

theorem decode_maybe_returns_witness:
  "decode_maybe
     \<lparr>header_str = (\<lambda>v. case v of
          HStr s \<Rightarrow> if s = ''=?x-unknown?q?abc?='' then Inl (LibraryError ''LookupError'')
                    else Inr s
        | _ \<Rightarrow> Inl (LibraryError ''TypeError'')),
      utf8_replace = (\<lambda>b. concat (map (\<lambda>c. if c = CHR 0xFF then [CHR 0xEF, CHR 0xBF, CHR 0xBD]
                                           else [c]) b)),
      msg_get = (\<lambda>raw name. Inr None)\<rparr>
     (HBytes [CHR ''a'', CHR 0xFF, CHR ''b''])
     = Inr [CHR ''a'', CHR 0xEF, CHR 0xBF, CHR 0xBD, CHR ''b'']
   \<and> decode_maybe
     \<lparr>header_str = (\<lambda>v. case v of
          HStr s \<Rightarrow> if s = ''=?x-unknown?q?abc?='' then Inl (LibraryError ''LookupError'')
                    else Inr s
        | _ \<Rightarrow> Inl (LibraryError ''TypeError'')),
      utf8_replace = (\<lambda>b. concat (map (\<lambda>c. if c = CHR 0xFF then [CHR 0xEF, CHR 0xBF, CHR 0xBD]
                                           else [c]) b)),
      msg_get = (\<lambda>raw name. Inr None)\<rparr>
     (HStr ''=?x-unknown?q?abc?='') = Inr ''=?x-unknown?q?abc?=''"
  using decode_maybe_returns [of
      "\<lparr>header_str = (\<lambda>v. case v of
          HStr s \<Rightarrow> if s = ''=?x-unknown?q?abc?='' then Inl (LibraryError ''LookupError'')
                    else Inr s
        | _ \<Rightarrow> Inl (LibraryError ''TypeError'')),
        utf8_replace = (\<lambda>b. concat (map (\<lambda>c. if c = CHR 0xFF then [CHR 0xEF, CHR 0xBF, CHR 0xBD]
                                             else [c]) b)),
        msg_get = (\<lambda>raw name. Inr None)\<rparr>"
      "HNone" "[]" "[CHR ''a'', CHR 0xFF, CHR ''b'']" "LibraryError ''TypeError''"
      "''=?x-unknown?q?abc?=''"]
    decode_maybe_returns [of
      "\<lparr>header_str = (\<lambda>v. case v of
          HStr s \<Rightarrow> if s = ''=?x-unknown?q?abc?='' then Inl (LibraryError ''LookupError'')
                    else Inr s
        | _ \<Rightarrow> Inl (LibraryError ''TypeError'')),
        utf8_replace = (\<lambda>b. concat (map (\<lambda>c. if c = CHR 0xFF then [CHR 0xEF, CHR 0xBF, CHR 0xBD]
                                             else [c]) b)),
        msg_get = (\<lambda>raw name. Inr None)\<rparr>"
      "HNone" "[]" "[CHR ''a'', CHR 0xFF, CHR ''b'']" "LibraryError ''LookupError''"
      "''=?x-unknown?q?abc?=''"]
  by simp

subsection \<open>Header summaries\<close>

text \<open>
  C10. When the reply's status is not OK, or its data list is empty, or the first item
  of the list is not a tuple, \<open>fetch_headers\<close> returns three empty strings and raises
  nothing. A message in which the three headers are all absent gives the same triple.
\<close>

theorem fetch_headers_failed_fetch:
  "(typ \<noteq> ''OK'' \<or> data = [] \<or> \<not> is_tuple (hd data) \<longrightarrow>
      fetch_headers lib (Inr (typ, data)) = Inr ([], [], []))
   \<and> (msg_get lib raw ''From'' = Inr None \<and> msg_get lib raw ''Subject'' = Inr None
        \<and> msg_get lib raw ''Date'' = Inr None \<longrightarrow>
      fetch_headers lib (Inr (''OK'', FTuple envelope raw # rest)) = Inr ([], [], []))"
proof -
  have a: "fetch_headers lib (Inr (typ, data)) = Inr ([], [], [])"
    if "typ \<noteq> ''OK'' \<or> data = [] \<or> \<not> is_tuple (hd data)"
  proof (cases data)
    case Nil
    then show ?thesis by (simp add: fetch_headers_def)
  next
    case (Cons x xs)
    with that have "typ \<noteq> ''OK'' \<or> \<not> is_tuple x" by simp
    with Cons show ?thesis
      by (cases x) (auto simp add: fetch_headers_def is_tuple_def)
  qed
  have b: "fetch_headers lib (Inr (''OK'', FTuple envelope raw # rest)) = Inr ([], [], [])"
    if "msg_get lib raw ''From'' = Inr None \<and> msg_get lib raw ''Subject'' = Inr None
        \<and> msg_get lib raw ''Date'' = Inr None"
    using that
    by (simp add: fetch_headers_def decoded_headers_def decoded_header_def decode_maybe_def)
  from a b show ?thesis by blast
qed

theorem fetch_headers_failed_fetch_witness:
  "fetch_headers
     \<lparr>header_str = (\<lambda>v. Inl (LibraryError ''HeaderParseError'')),
      utf8_replace = (\<lambda>b. b), msg_get = (\<lambda>raw name. Inr None)\<rparr>
     (Inr (''NO'', [FBytes ''no such message''])) = Inr ([], [], [])
   \<and> fetch_headers
     \<lparr>header_str = (\<lambda>v. Inl (LibraryError ''HeaderParseError'')),
      utf8_replace = (\<lambda>b. b), msg_get = (\<lambda>raw name. Inr None)\<rparr>
     (Inr (''OK'', [FTuple ''1 (UID 7 BODY[HEADER.FIELDS (FROM SUBJECT DATE)] {2}'' [CHR 0x0D, CHR 0x0A], FBytes '')''])) = Inr ([], [], [])"
  using fetch_headers_failed_fetch [of "''NO''" "[FBytes ''no such message'']"
      "\<lparr>header_str = (\<lambda>v. Inl (LibraryError ''HeaderParseError'')),
        utf8_replace = (\<lambda>b. b), msg_get = (\<lambda>raw name. Inr None)\<rparr>"
      "[CHR 0x0D, CHR 0x0A]" "''1 (UID 7 BODY[HEADER.FIELDS (FROM SUBJECT DATE)] {2}''"
      "[FBytes '')'']"]
  by simp

subsection \<open>Folder listing: the name of an entry\<close>

lemma findall_quoted_skip:
  "dquote \<notin> set pre \<Longrightarrow> findall_quoted (pre @ s) = findall_quoted s"
  by (induction pre) (auto simp add: Let_def)

lemma takeWhile_until: "q \<notin> set t \<Longrightarrow> takeWhile (\<lambda>x. x \<noteq> q) (t @ q # post) = t"
  by (induction t) auto

lemma dropWhile_until: "q \<notin> set t \<Longrightarrow> dropWhile (\<lambda>x. x \<noteq> q) (t @ q # post) = q # post"
  by (induction t) auto

lemma findall_quoted_token:
  assumes "t \<noteq> []" "dquote \<notin> set t"
  shows "findall_quoted (dquote # t @ dquote # post) = t # findall_quoted post"
  using assms by (simp add: Let_def takeWhile_until dropWhile_until)

lemma findall_quoted_seg:
  assumes "dquote \<notin> set gap" "t \<noteq> []" "dquote \<notin> set t"
  shows "findall_quoted (gap @ dquote # t @ dquote # post) = t # findall_quoted post"
  by (simp only: findall_quoted_skip [OF assms(1)] findall_quoted_token [OF assms(2,3)])

lemma findall_quoted_none: "dquote \<notin> set s \<Longrightarrow> findall_quoted s = []"
  using findall_quoted_skip [of s "[]"] by simp

text \<open>
  A line of the usual shape, flags, a quoted delimiter and a quoted name, with no other
  double quote: the name of the entry is the second quoted token.
\<close>

lemma entry_name_quoted_name:
  assumes "dquote \<notin> set flags" "delim \<noteq> []" "dquote \<notin> set delim" "dquote \<notin> set gap"
    "name \<noteq> []" "dquote \<notin> set name" "dquote \<notin> set post"
  shows "entry_name str (flags @ dquote # delim @ dquote # gap @ dquote # name @ dquote # post)
         = Inr name"
proof -
  have "findall_quoted (flags @ dquote # delim @ dquote # gap @ dquote # name @ dquote # post)
        = [delim, name]"
    by (simp only: findall_quoted_seg [OF assms(1,2,3)] findall_quoted_seg [OF assms(4,5,6)]
        findall_quoted_none [OF assms(7)])
  then show ?thesis by (simp add: entry_name_def)
qed

lemma entry_name_example:
  "entry_name str ([CHR ''('', CHR 0x5C] @ ''HasNoChildren) '' @ [dquote] @ ''/'' @ [dquote]
      @ '' '' @ [dquote] @ ''INBOX.Trash'' @ [dquote]) = Inr ''INBOX.Trash''"
  by (simp add: entry_name_def)

text \<open>A line with no double quote: the last token of \<open>split()\<close>.\<close>

lemma entry_name_bare:
  assumes "dquote \<notin> set line" "str_split str line = w # ws"
  shows "entry_name str line = Inr (strip_chars (\<lambda>c. c = dquote) (last (w # ws)))"
  using assms by (simp add: entry_name_def findall_quoted_none)

text \<open>Exactly the lines with no quoted token and no token at all raise.\<close>

lemma entry_name_raises:
  "entry_name str line = Inl e \<longleftrightarrow> e = IndexError \<and> findall_quoted line = [] \<and> str_split str line = []"
  by (auto simp add: entry_name_def Let_def split: list.splits)

lemma collect_boxes_set:
  "collect_boxes lib str data acc = Inr boxes \<Longrightarrow>
     set boxes = set acc \<union>
       {n. \<exists>l \<in> set data. entry_name str (line_text lib l) = Inr n \<and> keep_name n}"
proof (induction data arbitrary: acc)
  case Nil
  then show ?case by simp
next
  case (Cons line rest)
  then show ?case
    by (cases "entry_name str (line_text lib line)") (auto split: if_splits)
qed

lemma collect_boxes_raises:
  "\<exists>l \<in> set data. entry_name str (line_text lib l) = Inl IndexError \<Longrightarrow>
     collect_boxes lib str data acc = Inl IndexError"
proof (induction data arbitrary: acc)
  case Nil
  then show ?case by simp
next
  case (Cons line rest)
  show ?case
  proof (cases "entry_name str (line_text lib line)")
    case (Inl e)
    then have "e = IndexError" by (simp add: entry_name_raises)
    with Inl show ?thesis by simp
  next
    case (Inr name)
    with Cons.prems have "\<exists>l \<in> set rest. entry_name str (line_text lib l) = Inl IndexError"
      by auto
    from Cons.IH [OF this] Inr show ?thesis by simp
  qed
qed

text \<open>
  C8. On a reply that holds the entry \<open>(\HasNoChildren) "/" "INBOX.Trash"\<close> and then an
  empty line, \<open>list_mailboxes\<close> raises \<open>IndexError\<close>: the empty line has no token, so
  \<open>decoded.split()[-1]\<close> raises outside the \<open>try\<close> of lines 124-127. The line is not
  skipped, and the entry before it is lost with the listing.
\<close>

theorem list_mailboxes_blank_line_raises:
  "list_mailboxes plain_lib ascii_str remdups
     (Inr (''OK'',
        [LBytes ([CHR ''('', CHR 0x5C] @ ''HasNoChildren) '' @ [dquote] @ ''/'' @ [dquote]
           @ '' '' @ [dquote] @ ''INBOX.Trash'' @ [dquote]),
         LBytes []])) = Inl IndexError"
  by (simp add: list_mailboxes_def plain_lib_def ascii_str_def line_text_def entry_name_def keep_name_def
      split_ws_def)

theorem list_mailboxes_blank_line_raises_witness:
  "list_mailboxes plain_lib ascii_str remdups
     (Inr (''OK'',
        [LBytes ([CHR ''('', CHR 0x5C] @ ''HasNoChildren) '' @ [dquote] @ ''/'' @ [dquote]
           @ '' '' @ [dquote] @ ''INBOX.Trash'' @ [dquote]),
         LBytes []])) \<noteq> Inr [''INBOX.Trash'']"
  using list_mailboxes_blank_line_raises by simp

text \<open>The same holds for a blank line anywhere in any reply.\<close>

lemma list_mailboxes_no_token_raises:
  assumes "l \<in> set data" "findall_quoted (line_text lib l) = []" "str_split str (line_text lib l) = []"
  shows "list_mailboxes lib str set_iter (Inr (''OK'', data)) = Inl IndexError"
proof -
  have "entry_name str (line_text lib l) = Inl IndexError"
    using assms(2,3) by (simp add: entry_name_raises)
  with assms(1) have "collect_boxes lib str data [] = Inl IndexError"
    by (intro collect_boxes_raises) blast
  with assms(1) show ?thesis by (auto simp add: list_mailboxes_def)
qed

text \<open>
  The entry of an empty name under the delimiter "/" comes out as the folder "/": the
  pattern asks for a non-empty quoted token, so the last one is the delimiter, and line
  133 drops the name "." only.
\<close>

lemma list_mailboxes_slash_sentinel:
  "list_mailboxes plain_lib ascii_str remdups
     (Inr (''OK'',
        [LBytes ([CHR ''('', CHR 0x5C] @ ''Noselect) '' @ [dquote] @ ''/'' @ [dquote]
           @ '' '' @ [dquote, dquote])])) = Inr [''/'']"
  by (simp add: list_mailboxes_def plain_lib_def ascii_str_def line_text_def entry_name_def keep_name_def)

subsection \<open>Folder listing: duplicates and order\<close>

text \<open>
  C2, as the code has it. For every reply, every order of iterating the set and whatever
  \<open>str.lower\<close> and \<open>str.split\<close> are, the returned sequence holds no name twice, where
  names are compared exactly (so letter case counts), it is sorted by the key
  \<open>str.lower\<close> of the names, and after an OK reply it holds exactly the names that line
  133 keeps.
\<close>

theorem list_mailboxes_distinct_sorted:
  assumes "\<And>xs. distinct (set_iter xs) \<and> set (set_iter xs) = set xs"
    and "list_mailboxes lib str set_iter reply = Inr names"
  shows "distinct names \<and> sorted (map (str_lower str) names)
       \<and> (reply = Inr (''OK'', data) \<longrightarrow>
            set names = {n. \<exists>l \<in> set data. entry_name str (line_text lib l) = Inr n \<and> keep_name n})"
proof -
  have a: "distinct names \<and> sorted (map (str_lower str) names)"
    using assms
    by (auto simp add: list_mailboxes_def split: sum.splits if_splits prod.splits)
  have b: "set names = {n. \<exists>l \<in> set data. entry_name str (line_text lib l) = Inr n \<and> keep_name n}"
    if "reply = Inr (''OK'', data)"
  proof (cases "data = []")
    case True
    with that assms(2) show ?thesis by (simp add: list_mailboxes_def)
  next
    case False
    with that assms(2) obtain boxes where
      c: "collect_boxes lib str data [] = Inr boxes" and n: "names = sort_key (str_lower str) (set_iter boxes)"
      by (auto simp add: list_mailboxes_def split: sum.splits)
    from n assms(1) have "set names = set boxes" by simp
    with collect_boxes_set [OF c] show ?thesis by simp
  qed
  from a b show ?thesis by blast
qed

theorem list_mailboxes_distinct_sorted_witness:
  "list_mailboxes plain_lib ascii_str remdups
     (Inr (''OK'', [LBytes ''() NIL spam'', LBytes ''() NIL Archive'', LBytes ''() NIL spam'']))
     = Inr [''Archive'', ''spam'']
   \<and> distinct [''Archive'', ''spam''] \<and> sorted (map lower [''Archive'', ''spam''])"
proof -
  have r: "list_mailboxes plain_lib ascii_str remdups
     (Inr (''OK'', [LBytes ''() NIL spam'', LBytes ''() NIL Archive'', LBytes ''() NIL spam'']))
     = Inr [''Archive'', ''spam'']"
    by (simp add: list_mailboxes_def plain_lib_def ascii_str_def line_text_def entry_name_def keep_name_def
        split_ws_def is_space_def strip_chars_def lower_def lower_char_def)
  have i: "distinct (remdups xs) \<and> set (remdups xs) = set xs" for xs :: "string list"
    by simp
  from list_mailboxes_distinct_sorted [of remdups, OF i r] r show ?thesis
    by (simp add: ascii_str_def)
qed

text \<open>
  Two entries whose names differ in letter case only are both returned: \<open>set(boxes)\<close>
  compares the names exactly.
\<close>

theorem list_mailboxes_keeps_case_variants:
  "list_mailboxes plain_lib ascii_str remdups
     (Inr (''OK'',
        [LBytes ([CHR ''('', CHR 0x5C] @ ''HasNoChildren) '' @ [dquote] @ ''/'' @ [dquote]
           @ '' '' @ [dquote] @ ''INBOX'' @ [dquote]),
         LBytes ([CHR ''('', CHR 0x5C] @ ''HasNoChildren) '' @ [dquote] @ ''/'' @ [dquote]
           @ '' '' @ [dquote] @ ''inbox'' @ [dquote])]))
     = Inr [''INBOX'', ''inbox'']
   \<and> str_lower ascii_str ''INBOX'' = str_lower ascii_str ''inbox''"
  by (simp add: list_mailboxes_def plain_lib_def ascii_str_def line_text_def entry_name_def keep_name_def
      lower_def lower_char_def)

text \<open>Both names are returned in whatever order the set is iterated.\<close>

lemma list_mailboxes_case_variants_any_order:
  assumes "\<And>xs. distinct (set_iter xs) \<and> set (set_iter xs) = set xs"
  shows "\<exists>names. list_mailboxes plain_lib ascii_str set_iter
     (Inr (''OK'',
        [LBytes ([CHR ''('', CHR 0x5C] @ ''HasNoChildren) '' @ [dquote] @ ''/'' @ [dquote]
           @ '' '' @ [dquote] @ ''INBOX'' @ [dquote]),
         LBytes ([CHR ''('', CHR 0x5C] @ ''HasNoChildren) '' @ [dquote] @ ''/'' @ [dquote]
           @ '' '' @ [dquote] @ ''inbox'' @ [dquote])])) = Inr names
     \<and> set names = {''INBOX'', ''inbox''} \<and> length names = 2"
proof -
  let ?names = "sort_key lower (set_iter [''INBOX'', ''inbox''])"
  have r: "list_mailboxes plain_lib ascii_str set_iter
     (Inr (''OK'',
        [LBytes ([CHR ''('', CHR 0x5C] @ ''HasNoChildren) '' @ [dquote] @ ''/'' @ [dquote]
           @ '' '' @ [dquote] @ ''INBOX'' @ [dquote]),
         LBytes ([CHR ''('', CHR 0x5C] @ ''HasNoChildren) '' @ [dquote] @ ''/'' @ [dquote]
           @ '' '' @ [dquote] @ ''inbox'' @ [dquote])])) = Inr ?names"
    by (simp add: list_mailboxes_def plain_lib_def ascii_str_def line_text_def entry_name_def keep_name_def)
  have d: "distinct (set_iter [''INBOX'', ''inbox''])"
    and e: "set (set_iter [''INBOX'', ''inbox'']) = {''INBOX'', ''inbox''}"
    using assms [of "[''INBOX'', ''inbox'']"] by simp_all
  have "length (set_iter [''INBOX'', ''inbox'']) = card {''INBOX'', ''inbox''}"
    using distinct_card [OF d] e by simp
  then have "length ?names = 2" by simp
  with r e show ?thesis by simp
qed

subsection \<open>Recipients of a composed message\<close>

lemma input_nonempty_nonempty: "input_nonempty str stdin = Inr (s, rest) \<Longrightarrow> s \<noteq> []"
  by (induction stdin) (auto simp add: Let_def split: if_splits)

lemma split_addrs_empty_iff:
  "split_addrs str to_line = [] \<longleftrightarrow>
     (\<forall>a \<in> set (split_on (CHR '','') to_line). str_strip str a = [])"
  by (auto simp add: split_addrs_def filter_empty_conv)

text \<open>
  C9. \<open>input_nonempty\<close> accepts a line that holds a comma only, and the recipients that
  \<open>compose_and_send\<close> then hands to \<open>send_text\<close> are the empty list.
\<close>

theorem compose_and_send_comma_only:
  "input_nonempty ascii_str ['','', ''hello'', ''line one'', ''.'']
     = Inr ('','', [''hello'', ''line one'', ''.''])
   \<and> compose_and_send_args ascii_str ['','', ''hello'', ''line one'', ''.'']
       = Inr ([], ''hello'', ''line one'')"
  by (simp add: compose_and_send_args_def split_addrs_def ascii_str_def strip_def
      strip_chars_def is_space_def)

subsection \<open>Plain text of a message\<close>

lemma scan_parts_first:
  "plain_inline p \<Longrightarrow> decoded_text p = Some s \<Longrightarrow>
     \<forall>q \<in> set pre. \<not> (plain_inline q \<and> decoded_text q \<noteq> None) \<Longrightarrow>
     scan_parts (pre @ p # post) = s"
  by (induction pre) auto

lemma scan_parts_none:
  "\<forall>q \<in> set ps. \<not> (plain_inline q \<and> decoded_text q \<noteq> None) \<Longrightarrow>
     scan_parts ps = NO_READABLE_PART"
  by (induction ps) auto

text \<open>
  C5, as the code has it. For a multipart message the result is the text of the first
  part of the walk that is plain text, is not an attachment and can be decoded (by
  \<open>get_content()\<close> or, when that raises, from the payload): a part of that kind whose
  two decodings both raise is passed over. When the walk has no part that is plain text,
  not an attachment and decodable, and so also when it has no plain-text part outside
  attachments at all, the result is the "no readable text part" text. For a single-part
  message whose main type is not \<open>text\<close> the result is the "not of a textual type" text.
\<close>

theorem extract_text_plain_first_readable:
  "(is_multipart m \<and> walk m = pre @ p # post \<and> plain_inline p \<and> decoded_text p = Some s
      \<and> (\<forall>q \<in> set pre. \<not> (plain_inline q \<and> decoded_text q \<noteq> None))
      \<longrightarrow> extract_text_plain m = s)
   \<and> (is_multipart m \<and> (\<forall>q \<in> set (walk m). \<not> (plain_inline q \<and> decoded_text q \<noteq> None))
      \<longrightarrow> extract_text_plain m = NO_READABLE_PART)
   \<and> (is_multipart m \<and> (\<forall>q \<in> set (walk m). \<not> plain_inline q)
      \<longrightarrow> extract_text_plain m = NO_READABLE_PART)
   \<and> (\<not> is_multipart m \<and> get_content_maintype m \<noteq> ''text''
      \<longrightarrow> extract_text_plain m = NOT_TEXTUAL)"
  by (simp add: extract_text_plain_def scan_parts_first scan_parts_none)

theorem extract_text_plain_first_readable_witness:
  "extract_text_plain
     (Message ''multipart/mixed'' None (Inl (KeyError ''multipart/mixed'')) (Inl AttributeError)
        True
        [Message ''text/html'' None (Inr ''<p>hi</p>'') (Inr ''<p>hi</p>'') False [],
         Message ''text/plain'' (Some ''attachment'') (Inr ''notes'') (Inr ''notes'') False [],
         Message ''text/plain'' None (Inr ''hi'') (Inr ''hi'') False [],
         Message ''text/plain'' None (Inr ''later'') (Inr ''later'') False []]) = ''hi''
   \<and> extract_text_plain
     (Message ''multipart/mixed'' None (Inl (KeyError ''multipart/mixed'')) (Inl AttributeError)
        True
        [Message ''text/html'' None (Inr ''<p>hi</p>'') (Inr ''<p>hi</p>'') False []])
       = NO_READABLE_PART
   \<and> extract_text_plain
     (Message ''image/png'' None (Inr ''...'') (Inr ''...'') False []) = NOT_TEXTUAL"
  using extract_text_plain_first_readable [of
      "Message ''multipart/mixed'' None (Inl (KeyError ''multipart/mixed'')) (Inl AttributeError)
        True
        [Message ''text/html'' None (Inr ''<p>hi</p>'') (Inr ''<p>hi</p>'') False [],
         Message ''text/plain'' (Some ''attachment'') (Inr ''notes'') (Inr ''notes'') False [],
         Message ''text/plain'' None (Inr ''hi'') (Inr ''hi'') False [],
         Message ''text/plain'' None (Inr ''later'') (Inr ''later'') False []]"
      "[Message ''multipart/mixed'' None (Inl (KeyError ''multipart/mixed''))
          (Inl AttributeError) True
          [Message ''text/html'' None (Inr ''<p>hi</p>'') (Inr ''<p>hi</p>'') False [],
           Message ''text/plain'' (Some ''attachment'') (Inr ''notes'') (Inr ''notes'') False [],
           Message ''text/plain'' None (Inr ''hi'') (Inr ''hi'') False [],
           Message ''text/plain'' None (Inr ''later'') (Inr ''later'') False []],
        Message ''text/html'' None (Inr ''<p>hi</p>'') (Inr ''<p>hi</p>'') False [],
        Message ''text/plain'' (Some ''attachment'') (Inr ''notes'') (Inr ''notes'') False []]"
      "Message ''text/plain'' None (Inr ''hi'') (Inr ''hi'') False []"
      "[Message ''text/plain'' None (Inr ''later'') (Inr ''later'') False []]"
      "''hi''"]
    extract_text_plain_first_readable [of
      "Message ''multipart/mixed'' None (Inl (KeyError ''multipart/mixed'')) (Inl AttributeError)
        True
        [Message ''text/html'' None (Inr ''<p>hi</p>'') (Inr ''<p>hi</p>'') False []]"
      "[]" "Message ''text/html'' None (Inr ''<p>hi</p>'') (Inr ''<p>hi</p>'') False []" "[]" "[]"]
    extract_text_plain_first_readable [of
      "Message ''image/png'' None (Inr ''...'') (Inr ''...'') False []"
      "[]" "Message ''image/png'' None (Inr ''...'') (Inr ''...'') False []" "[]" "[]"]
  by (simp add: plain_inline_def decoded_text_def get_content_maintype_def)

text \<open>
  The first plain-text part outside attachments declares a character set that Python
  does not know, so that \<open>get_content()\<close> and the decoding of the payload both raise
  \<open>LookupError\<close>: the result is the text of the second such part.
\<close>

theorem extract_text_plain_skips_undecodable:
  "extract_text_plain
     (Message ''multipart/mixed'' None (Inl (KeyError ''multipart/mixed'')) (Inl AttributeError)
        True
        [Message ''text/plain'' None (Inl (LibraryError ''LookupError''))
           (Inl (LibraryError ''LookupError'')) False [],
         Message ''text/plain'' None (Inr ''second'') (Inr ''second'') False []]) = ''second''
   \<and> plain_inline (Message ''text/plain'' None (Inl (LibraryError ''LookupError''))
           (Inl (LibraryError ''LookupError'')) False [])
   \<and> walk
     (Message ''multipart/mixed'' None (Inl (KeyError ''multipart/mixed'')) (Inl AttributeError)
        True
        [Message ''text/plain'' None (Inl (LibraryError ''LookupError''))
           (Inl (LibraryError ''LookupError'')) False [],
         Message ''text/plain'' None (Inr ''second'') (Inr ''second'') False []])
     = [Message ''multipart/mixed'' None (Inl (KeyError ''multipart/mixed''))
          (Inl AttributeError) True
          [Message ''text/plain'' None (Inl (LibraryError ''LookupError''))
             (Inl (LibraryError ''LookupError'')) False [],
           Message ''text/plain'' None (Inr ''second'') (Inr ''second'') False []],
        Message ''text/plain'' None (Inl (LibraryError ''LookupError''))
          (Inl (LibraryError ''LookupError'')) False [],
        Message ''text/plain'' None (Inr ''second'') (Inr ''second'') False []]"
  by (simp add: extract_text_plain_def plain_inline_def decoded_text_def)

subsection \<open>Connecting to the submission server\<close>



subsection \<open>Archiving a sent message\<close>

text \<open>Exactly these make the archival step raise.\<close>

lemma archive_copy_raises:
  "snd (archive_copy env imap msg) \<noteq> None \<longleftrightarrow>
     sent_folder env = None \<or> \<not> imap_connected imap \<or> select_reply imap \<noteq> Inr ''OK''
     \<or> as_bytes_error env \<noteq> None \<or> append_error imap \<noteq> None"
  by (auto simp add: archive_copy_def select_mailbox_def split: option.splits sum.splits)

text \<open>
  C3. Let the message be built and sent over the submission connection without an
  exception, and let an archiver be given. Then \<open>send_text\<close> returns normally, with the
  result it has without an archiver, whatever the archival step does; and when the
  archival step raises \<open>e\<close>, the last thing \<open>send_text\<close> does is to print the warning that
  carries \<open>e\<close>.
\<close>

theorem send_text_archival_warning:
  assumes "build_error env = None" and "smtp_connected env" and "send_message env = None"
  shows "snd (send_text env to_addrs subject body from_name (Some imap)) = Inr ()
       \<and> snd (send_text env to_addrs subject body from_name (Some imap))
           = snd (send_text env to_addrs subject body from_name None)
       \<and> (snd (archive_copy env imap (build_outgoing env to_addrs subject body from_name)) = Some e
            \<longrightarrow> fst (send_text env to_addrs subject body from_name (Some imap)) =
                 SendMessage (build_outgoing env to_addrs subject body from_name) # SaySent #
                 fst (archive_copy env imap (build_outgoing env to_addrs subject body from_name))
                 @ [SayArchiveFailed e])"
  using assms
  by (auto simp add: send_text_def Let_def split: option.splits prod.splits)

theorem send_text_archival_warning_witness:
  "send_text
     \<lparr>smtp_user = ''me@example.org'', build_error = None, smtp_connected = True,
      send_message = None, sent_folder = Some ''Sent'', as_bytes_error = None\<rparr>
     [''you@example.org''] ''hello'' ''text'' None
     (Some \<lparr>imap_connected = True, select_reply = Inr ''NO'', append_error = None\<rparr>)
   = ([SendMessage \<lparr>msg_from = (''me@example.org'', ''me@example.org''),
          msg_to = ''you@example.org'', msg_subject = ''hello'', msg_body = ''text''\<rparr>,
       SaySent, SayArchiveAttempt ''Sent'', Select ''Sent'',
       SayArchiveFailed (RuntimeError (CANNOT_SELECT @ ''Sent''))],
      Inr ())"
proof -
  have a: "archive_copy
     \<lparr>smtp_user = ''me@example.org'', build_error = None, smtp_connected = True,
      send_message = None, sent_folder = Some ''Sent'', as_bytes_error = None\<rparr>
     \<lparr>imap_connected = True, select_reply = Inr ''NO'', append_error = None\<rparr>
     \<lparr>msg_from = (''me@example.org'', ''me@example.org''),
          msg_to = ''you@example.org'', msg_subject = ''hello'', msg_body = ''text''\<rparr>
    = ([SayArchiveAttempt ''Sent'', Select ''Sent''],
       Some (RuntimeError (CANNOT_SELECT @ ''Sent'')))"
    by (simp add: archive_copy_def select_mailbox_def)
  have b: "build_outgoing
     \<lparr>smtp_user = ''me@example.org'', build_error = None, smtp_connected = True,
      send_message = None, sent_folder = Some ''Sent'', as_bytes_error = None\<rparr>
     [''you@example.org''] ''hello'' ''text'' None
     = \<lparr>msg_from = (''me@example.org'', ''me@example.org''),
          msg_to = ''you@example.org'', msg_subject = ''hello'', msg_body = ''text''\<rparr>"
    by (simp add: build_outgoing_def)
  show ?thesis
    using send_text_archival_warning [of
        "\<lparr>smtp_user = ''me@example.org'', build_error = None, smtp_connected = True,
          send_message = None, sent_folder = Some ''Sent'', as_bytes_error = None\<rparr>"
        "[''you@example.org'']" "''hello''" "''text''" None
        "\<lparr>imap_connected = True, select_reply = Inr ''NO'', append_error = None\<rparr>"
        "RuntimeError (CANNOT_SELECT @ ''Sent'')"]
    by (simp add: a b prod_eq_iff)
qed

end
